theory Spec2Isabelle
  imports Complex_Main "HOL-Library.Multiset" "HOL-Library.Sublist"
begin

section \<open>The PRCA orchestrator (src/module/PrcaOrchestrator.ts)\<close>

text \<open>
  The class \<^verbatim>\<open>PrcaOrchestrator\<close> fetches the messages of a SonarQube report, keeps
  those on files changed in the pull request, sorts and caps them, deletes the comments
  posted before and posts the new ones. Values are modelled at their declared TypeScript
  types; \<^verbatim>\<open>null\<close> and \<^verbatim>\<open>undefined\<close> are modelled wherever the code tests for
  them. The logger is a sink: every \<^verbatim>\<open>LogDebug\<close> call is an event of the trace.
\<close>

subsection \<open>JavaScript values\<close>

datatype 'a nullable = Undefined | Null | Value 'a

text \<open>
  A JavaScript \<^verbatim>\<open>number\<close>: the three special values and the finite ones. Finite
  doubles are rationals, so \<open>Finite\<close> ranges over a superset of them.
\<close>

datatype number = NaN | PosInfinity | NegInfinity | Finite rat

definition of_length :: "nat \<Rightarrow> number" where
  "of_length n = Finite (of_nat n)"

text \<open>The relational operators \<^verbatim>\<open>a > b\<close> and \<^verbatim>\<open>a <= b\<close>: false when an operand is NaN.\<close>

fun number_greater :: "number \<Rightarrow> number \<Rightarrow> bool" where
  "number_greater NaN b = False"
| "number_greater a NaN = False"
| "number_greater PosInfinity PosInfinity = False"
| "number_greater PosInfinity b = True"
| "number_greater NegInfinity b = False"
| "number_greater (Finite x) PosInfinity = False"
| "number_greater (Finite x) NegInfinity = True"
| "number_greater (Finite x) (Finite y) = (y < x)"

fun number_le :: "number \<Rightarrow> number \<Rightarrow> bool" where
  "number_le NaN b = False"
| "number_le a NaN = False"
| "number_le a b = (\<not> number_greater a b)"

text \<open>The operator \<^verbatim>\<open>a - b\<close> (exact on the finite values).\<close>

fun number_minus :: "number \<Rightarrow> number \<Rightarrow> number" where
  "number_minus NaN b = NaN"
| "number_minus a NaN = NaN"
| "number_minus PosInfinity PosInfinity = NaN"
| "number_minus PosInfinity b = PosInfinity"
| "number_minus NegInfinity NegInfinity = NaN"
| "number_minus NegInfinity b = NegInfinity"
| "number_minus (Finite x) PosInfinity = NegInfinity"
| "number_minus (Finite x) NegInfinity = PosInfinity"
| "number_minus (Finite x) (Finite y) = Finite (x - y)"

subsection \<open>Array.prototype.slice, filter and sort\<close>

text \<open>
  \<^verbatim>\<open>slice(start, end)\<close> turns each argument into an index of the array: NaN is 0,
  a fraction is truncated towards zero, a negative value counts back from the length,
  and the result is clamped to \<open>0 .. length\<close>.
\<close>

definition trunc :: "rat \<Rightarrow> int" where
  "trunc q = (if 0 \<le> q then \<lfloor>q\<rfloor> else \<lceil>q\<rceil>)"

fun relativeIndex :: "nat \<Rightarrow> number \<Rightarrow> nat" where
  "relativeIndex len NaN = 0"
| "relativeIndex len PosInfinity = len"
| "relativeIndex len NegInfinity = 0"
| "relativeIndex len (Finite q) =
     (if trunc q < 0 then nat (max (int len + trunc q) 0) else min (nat (trunc q)) len)"

definition slice :: "'a list \<Rightarrow> number \<Rightarrow> number \<Rightarrow> 'a list" where
  "slice xs start stop =
     (let k = relativeIndex (length xs) start;
          final = relativeIndex (length xs) stop
      in take (final - k) (drop k xs))"

text \<open>
  \<^verbatim>\<open>sort(comparefn)\<close>, as ECMAScript 2019 and later specify it: a stable sort (insertion
  of each element in front of the first one it does not come after), and whatever the
  comparison function answers the result holds the elements of the array.
\<close>

fun insertBy :: "('a \<Rightarrow> 'a \<Rightarrow> int) \<Rightarrow> 'a \<Rightarrow> 'a list \<Rightarrow> 'a list" where
  "insertBy comparefn x [] = [x]"
| "insertBy comparefn x (y # ys) =
     (if comparefn x y \<le> 0 then x # y # ys else y # insertBy comparefn x ys)"

fun sortBy :: "('a \<Rightarrow> 'a \<Rightarrow> int) \<Rightarrow> 'a list \<Rightarrow> 'a list" where
  "sortBy comparefn [] = []"
| "sortBy comparefn (x # xs) = insertBy comparefn x (sortBy comparefn xs)"

subsection \<open>Messages, errors, promises and the collaborators\<close>

text \<open>
  Modelled from the spec: the class \<^verbatim>\<open>Message\<close> (Message.ts is not among the
  sources). A finding has the file it belongs to (the field \<^verbatim>\<open>file\<close>, here
  \<open>file_path\<close>), a priority used for sorting, and descriptive fields the orchestrator
  carries through unchanged.
\<close>

record Message =
  file_path :: string
  priority :: int
  content :: string

datatype error =
    ReferenceError string
  | Error string
  | TypeError string
  | RemoteError string

text \<open>
  A call either returns or throws. A promise is modelled by how it settles:
  \<open>Pending\<close> is the promise that never does.
\<close>

datatype 'a completion = Returns 'a | Throws error

datatype 'a promise = Fulfilled 'a | Rejected error | Pending

text \<open>
  The collaborators, as the orchestrator uses them. Each operation is called at most
  once in a run, so its behaviour in that run is its one outcome.
\<close>

record ISonarQubeReportProcessor =
  FetchCommentsFromReport :: "string \<Rightarrow> Message list completion"

record IPrcaService =
  getModifiedFilesInPr :: "string list promise completion"
  deleteCodeAnalysisComments :: "unit promise completion"
  createCodeAnalysisThreads :: "Message list \<Rightarrow> unit promise completion"

text \<open>The lines the orchestrator logs, with the values their templates interpolate.\<close>

datatype logline =
    ReportPathLine "string nullable"
      \<comment> \<open>SonarQube report path: $sqReportPath\<close>
  | ChangedFilesLine nat
      \<comment> \<open>$filesChanged.length changed files in the PR.\<close>
  | ForChangedFilesLine nat int
      \<comment> \<open>$result.length messages are for files changed in this PR.
          $(allMessages.length - result.length) messages are not.\<close>
  | LimitedLine number number
      \<comment> \<open>The number of messages posted is limited to $_messageLimit.
          $(result.length - _messageLimit) messages will not be posted.\<close>
  | ToBePostedLine nat
      \<comment> \<open>$messagesToPost.length messages are to be posted.\<close>

datatype event =
    LogDebug logline
  | Invoke_FetchCommentsFromReport string
  | Invoke_getModifiedFilesInPr
  | Invoke_deleteCodeAnalysisComments
  | Invoke_createCodeAnalysisThreads "Message list"

subsection \<open>The class\<close>

record PrcaOrchestrator =
  sqReportProcessor :: ISonarQubeReportProcessor
  PrcaService :: IPrcaService
  priv_messageLimit :: number

text \<open>
  The constructor: both collaborators are checked, the processor first; the field
  \<^verbatim>\<open>_messageLimit\<close> starts at 100 and takes the argument unless that is null or
  undefined (\<^verbatim>\<open>messageLimit != null && messageLimit != undefined\<close>).
\<close>

fun isNullish :: "'a nullable \<Rightarrow> bool" where
  "isNullish Undefined = True"
| "isNullish Null = True"
| "isNullish (Value v) = False"

definition new_PrcaOrchestrator ::
  "ISonarQubeReportProcessor nullable \<Rightarrow> IPrcaService nullable \<Rightarrow> number nullable
     \<Rightarrow> error + PrcaOrchestrator" where
  "new_PrcaOrchestrator sqReportProcessor' PrcaService' messageLimit' =
     (case sqReportProcessor' of
        Undefined \<Rightarrow> Inl (ReferenceError ''sqReportProcessor'')
      | Null \<Rightarrow> Inl (ReferenceError ''sqReportProcessor'')
      | Value processor \<Rightarrow>
          (case PrcaService' of
             Undefined \<Rightarrow> Inl (ReferenceError ''PrcaService'')
           | Null \<Rightarrow> Inl (ReferenceError ''PrcaService'')
           | Value service \<Rightarrow>
               Inr \<lparr> sqReportProcessor = processor,
                     PrcaService = service,
                     priv_messageLimit =
                       (case messageLimit' of Value n \<Rightarrow> n | _ \<Rightarrow> Finite 100) \<rparr>))"

definition messageLimit :: "PrcaOrchestrator \<Rightarrow> number" where
  "messageLimit self = priv_messageLimit self"

text \<open>
  \<^verbatim>\<open>filterMessages\<close>. The function \<^verbatim>\<open>path.relative\<close> of the host's path module and
  the comparison \<^verbatim>\<open>Message.compare\<close> are parameters. The callback of the filter is the
  loop over \<^verbatim>\<open>filesChanged\<close> with its early return.
\<close>

fun isInFilesChanged :: "(string \<Rightarrow> string \<Rightarrow> string) \<Rightarrow> string list \<Rightarrow> Message \<Rightarrow> bool" where
  "isInFilesChanged relative [] message = False"
| "isInFilesChanged relative (fileChanged # rest) message =
     (if relative fileChanged (file_path message) = '''' then True
      else isInFilesChanged relative rest message)"

definition filterMessages ::
  "(string \<Rightarrow> string \<Rightarrow> string) \<Rightarrow> (Message \<Rightarrow> Message \<Rightarrow> int) \<Rightarrow> PrcaOrchestrator
     \<Rightarrow> string list \<Rightarrow> Message list \<Rightarrow> event list \<times> Message list" where
  "filterMessages relative compare self filesChanged allMessages =
     (let result1 = filter (isInFilesChanged relative filesChanged) allMessages;
          log1 = [LogDebug (ForChangedFilesLine (length result1)
                    (int (length allMessages) - int (length result1)))];
          result2 = sortBy compare result1;
          log2 = (if number_greater (of_length (length result2)) (priv_messageLimit self)
                  then [LogDebug (LimitedLine (priv_messageLimit self)
                          (number_minus (of_length (length result2)) (priv_messageLimit self)))]
                  else []);
          result3 = slice result2 (Finite 0) (priv_messageLimit self)
      in (log1 @ log2, result3))"

text \<open>
  Modelled from the spec: \<^verbatim>\<open>Message.compare\<close> (Message.ts is not among the sources).
  The source's comment and the spec say it sorts by descending priority: it is negative
  when the first message has the higher priority.
\<close>

definition Message_compare :: "Message \<Rightarrow> Message \<Rightarrow> int" where
  "Message_compare a b = priority b - priority a"

subsection \<open>postSonarQubeIssuesToPullRequest\<close>

text \<open>
  A run threads the receiver's fields, the trace of the calls made so far and the local
  variable \<^verbatim>\<open>messagesToPost\<close> the callbacks share. The result of the call is a
  completion: thrown from the call itself, or the promise it returns, given by how that
  promise settles in the end.
\<close>

record run =
  receiver :: PrcaOrchestrator
  trace :: "event list"
  messagesToPost :: "Message list nullable"

definition emit :: "event \<Rightarrow> run \<Rightarrow> run" where
  "emit e r = r\<lparr>trace := trace r @ [e]\<rparr>"

text \<open>
  \<^verbatim>\<open>promise.then(onFulfilled)\<close>: the callback runs only when the promise is fulfilled;
  what it throws rejects the new promise, what it returns settles it. A rejection
  passes through, and a promise that never settles leaves a promise that never settles.
\<close>

definition then_promise ::
  "'a promise \<Rightarrow> ('a \<Rightarrow> run \<Rightarrow> 'b promise completion \<times> run) \<Rightarrow> run \<Rightarrow> 'b promise \<times> run" where
  "then_promise p onFulfilled r =
     (case p of
        Fulfilled v \<Rightarrow>
          (case onFulfilled v r of
             (Returns q, r') \<Rightarrow> (q, r')
           | (Throws e, r') \<Rightarrow> (Rejected e, r'))
      | Rejected e \<Rightarrow> (Rejected e, r)
      | Pending \<Rightarrow> (Pending, r))"

text \<open>The three callbacks of the chain, in the order of the source.\<close>

definition onFilesChanged ::
  "(string \<Rightarrow> string \<Rightarrow> string) \<Rightarrow> (Message \<Rightarrow> Message \<Rightarrow> int) \<Rightarrow> Message list
     \<Rightarrow> string list \<Rightarrow> run \<Rightarrow> unit promise completion \<times> run" where
  "onFilesChanged relative compare allMessages filesChanged r =
     (let r1 = emit (LogDebug (ChangedFilesLine (length filesChanged))) r;
          (logged, result) = filterMessages relative compare (receiver r1) filesChanged allMessages
      in (Returns (Fulfilled ()),
          r1\<lparr>trace := trace r1 @ logged, messagesToPost := Value result\<rparr>))"

definition onFiltered :: "unit \<Rightarrow> run \<Rightarrow> unit promise completion \<times> run" where
  "onFiltered u r =
     (deleteCodeAnalysisComments (PrcaService (receiver r)),
      emit Invoke_deleteCodeAnalysisComments r)"

definition onDeleted :: "unit \<Rightarrow> run \<Rightarrow> unit promise completion \<times> run" where
  "onDeleted u r =
     (case messagesToPost r of
        Value messages \<Rightarrow>
          (createCodeAnalysisThreads (PrcaService (receiver r)) messages,
           emit (Invoke_createCodeAnalysisThreads messages)
             (emit (LogDebug (ToBePostedLine (length messages))) r))
      | Null \<Rightarrow> (Throws (TypeError ''Cannot read property length of null''), r)
      | Undefined \<Rightarrow> (Throws (TypeError ''Cannot read property length of undefined''), r))"

definition postSonarQubeIssuesToPullRequest ::
  "(string \<Rightarrow> string \<Rightarrow> string) \<Rightarrow> (Message \<Rightarrow> Message \<Rightarrow> int) \<Rightarrow> PrcaOrchestrator
     \<Rightarrow> string nullable \<Rightarrow> unit promise completion \<times> run" where
  "postSonarQubeIssuesToPullRequest relative compare self sqReportPath =
     (let r0 = emit (LogDebug (ReportPathLine sqReportPath))
                 \<lparr>receiver = self, trace = [], messagesToPost = Undefined\<rparr>
      in case sqReportPath of
           Undefined \<Rightarrow>
             (Throws (Error ''Make sure a SonarQube enabled build task ran before this step.''), r0)
         | Null \<Rightarrow>
             (Throws (Error ''Make sure a SonarQube enabled build task ran before this step.''), r0)
         | Value reportPath \<Rightarrow>
             (let r1 = emit (Invoke_FetchCommentsFromReport reportPath) r0
              in case FetchCommentsFromReport (sqReportProcessor self) reportPath of
                   Throws e \<Rightarrow> (Throws e, r1)
                 | Returns allMessages \<Rightarrow>
                     (let r2 = emit Invoke_getModifiedFilesInPr (r1\<lparr>messagesToPost := Null\<rparr>)
                      in case getModifiedFilesInPr (PrcaService self) of
                           Throws e \<Rightarrow> (Throws e, r2)
                         | Returns p0 \<Rightarrow>
                             (let (p1, r3) = then_promise p0
                                    (onFilesChanged relative compare allMessages) r2;
                                  (p2, r4) = then_promise p1 onFiltered r3;
                                  (p3, r5) = then_promise p2 onDeleted r4
                              in (Returns p3, r5)))))"

text \<open>
  What a rejection handler attached to the returned promise
  (\<^verbatim>\<open>orchestrator.postSonarQubeIssuesToPullRequest(path).catch(handler)\<close>) receives: the
  reason of a rejection. When the call throws there is no promise to attach it to.
\<close>

fun rejectionHandled :: "'a promise completion \<Rightarrow> error option" where
  "rejectionHandled (Returns (Rejected e)) = Some e"
| "rejectionHandled (Returns p) = None"
| "rejectionHandled (Throws e) = None"

subsection \<open>filterMessages on a store of arrays\<close>

text \<open>
  Arrays and messages are objects: a variable holds a reference. A store lists the
  \<^verbatim>\<open>Message[]\<close> arrays (each a list of references to messages), the \<^verbatim>\<open>string[]\<close>
  arrays and the messages; a reference is an index into its list. \<^verbatim>\<open>filter\<close> and
  \<^verbatim>\<open>slice\<close> allocate the array they return, \<^verbatim>\<open>sort\<close> sorts its receiver in place
  and returns it. The callbacks read the messages they are given.
\<close>

record store =
  messageArrays :: "nat list list"
  stringArrays :: "string list list"
  messageObjects :: "Message list"

definition messagesAt :: "store \<Rightarrow> nat \<Rightarrow> Message list" where
  "messagesAt s a = map (\<lambda>ref. messageObjects s ! ref) (messageArrays s ! a)"

definition allocate :: "nat list \<Rightarrow> store \<Rightarrow> nat \<times> store" where
  "allocate refs s = (length (messageArrays s), s\<lparr>messageArrays := messageArrays s @ [refs]\<rparr>)"

definition array_filter :: "(Message \<Rightarrow> bool) \<Rightarrow> nat \<Rightarrow> store \<Rightarrow> nat \<times> store" where
  "array_filter callback a s =
     allocate (filter (\<lambda>ref. callback (messageObjects s ! ref)) (messageArrays s ! a)) s"

definition array_sort :: "(Message \<Rightarrow> Message \<Rightarrow> int) \<Rightarrow> nat \<Rightarrow> store \<Rightarrow> nat \<times> store" where
  "array_sort comparefn a s =
     (a, s\<lparr>messageArrays := (messageArrays s)
             [a := sortBy (\<lambda>x y. comparefn (messageObjects s ! x) (messageObjects s ! y))
                     (messageArrays s ! a)]\<rparr>)"

definition array_slice :: "number \<Rightarrow> number \<Rightarrow> nat \<Rightarrow> store \<Rightarrow> nat \<times> store" where
  "array_slice start stop a s = allocate (slice (messageArrays s ! a) start stop) s"

definition filterMessages_store ::
  "(string \<Rightarrow> string \<Rightarrow> string) \<Rightarrow> (Message \<Rightarrow> Message \<Rightarrow> int) \<Rightarrow> PrcaOrchestrator
     \<Rightarrow> nat \<Rightarrow> nat \<Rightarrow> store \<Rightarrow> nat \<times> store" where
  "filterMessages_store relative compare self filesChanged allMessages s =
     (let result0 = allMessages;
          (result1, s1) =
             array_filter (isInFilesChanged relative (stringArrays s ! filesChanged)) result0 s;
          (result2, s2) = array_sort compare result1 s1;
          (result3, s3) = array_slice (Finite 0) (priv_messageLimit self) result2 s2
      in (result3, s3))"

subsection \<open>Path equality\<close>

text \<open>
  Modelled from the spec: \<^verbatim>\<open>path.relative\<close> belongs to the host's path module, which
  is not part of the sources. The spec: two paths are equal iff the normalized relative
  path from one to the other is empty, that is, they resolve to the same location after
  normalization, independent of slash direction, of case on a case-insensitive host, and
  of relative or absolute form. A host says whether it compares case-insensitively,
  gives the working directory relative paths resolve against, and gives the case mapping
  of its strings (\<^verbatim>\<open>String.prototype.toLowerCase\<close>), which is a parameter: nothing
  is assumed about the letters it knows.
\<close>

record host =
  caseInsensitive :: bool
  cwd :: "string list"
  toLowerCase :: "string \<Rightarrow> string"

definition isSeparator :: "char \<Rightarrow> bool" where
  "isSeparator c = (c = CHR ''/'' \<or> c = CHR 0x5C)"

text \<open>The segments of a path: what stands between its separators, of either direction.\<close>

fun splitSegments :: "string \<Rightarrow> string list" where
  "splitSegments [] = [[]]"
| "splitSegments (c # cs) =
     (if isSeparator c then [] # splitSegments cs
      else (case splitSegments cs of
              [] \<Rightarrow> [[c]]
            | seg # segs \<Rightarrow> (c # seg) # segs))"

definition canonicalSegment :: "host \<Rightarrow> string \<Rightarrow> string" where
  "canonicalSegment h seg = (if caseInsensitive h then toLowerCase h seg else seg)"

text \<open>The stack holds the segments resolved so far, the last one first.\<close>

fun normalizeOnto :: "string list \<Rightarrow> string list \<Rightarrow> string list" where
  "normalizeOnto stack [] = rev stack"
| "normalizeOnto stack (seg # segs) =
     (if seg = [] \<or> seg = ''.'' then normalizeOnto stack segs
      else if seg = ''..'' then normalizeOnto (tl stack) segs
      else normalizeOnto (seg # stack) segs)"

text \<open>
  Modelled from the spec: the location a path resolves to, as the list of its segments.
  The path is cut at its separators and, on a case-insensitive host, every segment is
  replaced by its lower case; a path that does not start with a separator (its first
  segment is not an empty one followed by another) is resolved against the working
  directory; empty segments and \<^verbatim>\<open>.\<close> are dropped and \<^verbatim>\<open>..\<close> removes the segment
  before it.
\<close>

definition resolve :: "host \<Rightarrow> string \<Rightarrow> string list" where
  "resolve h p =
     (let segs = map (canonicalSegment h) (splitSegments p);
          base = (case segs of
                    first # second # rest \<Rightarrow>
                      if first = [] then [] else rev (map (canonicalSegment h) (cwd h))
                  | _ \<Rightarrow> rev (map (canonicalSegment h) (cwd h)))
      in normalizeOnto base segs)"

fun commonLength :: "'a list \<Rightarrow> 'a list \<Rightarrow> nat" where
  "commonLength (x # xs) (y # ys) = (if x = y then Suc (commonLength xs ys) else 0)"
| "commonLength xs ys = 0"

fun joinSegments :: "string list \<Rightarrow> string" where
  "joinSegments [] = []"
| "joinSegments [seg] = seg"
| "joinSegments (seg # segs) = seg @ ''/'' @ joinSegments segs"

text \<open>
  Modelled from the spec: the relative path leads up from the origin to the last common
  segment and down to the target; it is empty when both resolve to the same location.
\<close>

definition path_relative :: "host \<Rightarrow> string \<Rightarrow> string \<Rightarrow> string" where
  "path_relative h origin target =
     (let source = resolve h origin;
          dest = resolve h target;
          n = commonLength source dest
      in joinSegments (replicate (length source - n) ''..'' @ drop n dest))"


subsection \<open>Example values\<close>

definition exact_relative :: "string \<Rightarrow> string \<Rightarrow> string" where
  "exact_relative origin target = (if origin = target then [] else target)"

definition example_messages :: "Message list" where
  "example_messages =
     [\<lparr>file_path = ''a.ts'', priority = 2, content = ''first''\<rparr>,
      \<lparr>file_path = ''d.ts'', priority = 9, content = ''second''\<rparr>,
      \<lparr>file_path = ''b.ts'', priority = 5, content = ''third''\<rparr>,
      \<lparr>file_path = ''a.ts'', priority = 5, content = ''fourth''\<rparr>]"

definition example_files :: "string list" where
  "example_files = [''a.ts'', ''b.ts'', ''c.ts'']"

definition example_processor :: ISonarQubeReportProcessor where
  "example_processor = \<lparr>FetchCommentsFromReport = (\<lambda>reportPath. Returns example_messages)\<rparr>"

definition example_service :: IPrcaService where
  "example_service =
     \<lparr>getModifiedFilesInPr = Returns (Fulfilled example_files),
      deleteCodeAnalysisComments = Returns (Fulfilled ()),
      createCodeAnalysisThreads = (\<lambda>messages. Returns (Fulfilled ()))\<rparr>"

definition failing_service :: IPrcaService where
  "failing_service =
     example_service\<lparr>deleteCodeAnalysisComments := Returns (Rejected (RemoteError ''delete failed''))\<rparr>"

definition example_orchestrator :: "number \<Rightarrow> IPrcaService \<Rightarrow> PrcaOrchestrator" where
  "example_orchestrator limit service =
     \<lparr>sqReportProcessor = example_processor, PrcaService = service, priv_messageLimit = limit\<rparr>"

definition example_store :: store where
  "example_store =
     \<lparr>messageArrays = [[0, 1, 2, 3]],
      stringArrays = [example_files],
      messageObjects = example_messages\<rparr>"

text \<open>
  An example of a case mapping, on strings in UTF-8: the letters A to Z, and the
  capital letters of the Latin-1 supplement (the two bytes 0xC3 0x80 to 0xC3 0x9E,
  the multiplication sign 0xC3 0x97 left out), each 32 below its small letter.
\<close>

definition lowerASCII :: "char \<Rightarrow> char" where
  "lowerASCII c =
     (if 65 \<le> (of_char c :: nat) \<and> (of_char c :: nat) \<le> 90
      then char_of ((of_char c :: nat) + 32) else c)"

fun example_toLowerCase :: "string \<Rightarrow> string" where
  "example_toLowerCase [] = []"
| "example_toLowerCase [c] = [lowerASCII c]"
| "example_toLowerCase (c # d # cs) =
     (if c = CHR 0xC3 \<and> 128 \<le> (of_char d :: nat) \<and> (of_char d :: nat) \<le> 158
         \<and> (of_char d :: nat) \<noteq> 151
      then c # char_of ((of_char d :: nat) + 32) # example_toLowerCase cs
      else lowerASCII c # example_toLowerCase (d # cs))"

definition insensitive_host :: host where
  "insensitive_host =
     \<lparr>caseInsensitive = True, cwd = [''repo''], toLowerCase = example_toLowerCase\<rparr>"

definition sensitive_host :: host where
  "sensitive_host =
     \<lparr>caseInsensitive = False, cwd = [''repo''], toLowerCase = example_toLowerCase\<rparr>"

section \<open>Properties of filterMessages\<close>

lemma isInFilesChanged_iff:
  "isInFilesChanged relative filesChanged m \<longleftrightarrow>
     (\<exists>c \<in> set filesChanged. relative c (file_path m) = '''')"
  by (induction filesChanged) auto

lemma mset_insertBy: "mset (insertBy cmp x ys) = add_mset x (mset ys)"
  by (induction ys) auto

lemma mset_sortBy: "mset (sortBy cmp xs) = mset xs"
  by (induction xs) (auto simp: mset_insertBy)

lemma set_sortBy: "set (sortBy cmp xs) = set xs"
  using mset_sortBy [of cmp xs] by (metis set_mset_mset)

lemma length_sortBy: "length (sortBy cmp xs) = length xs"
  using mset_sortBy [of cmp xs] by (metis size_mset)

lemma relativeIndex_le: "relativeIndex len n \<le> len"
  by (cases n) auto

lemma slice_from_start: "slice xs (Finite 0) n = take (relativeIndex (length xs) n) xs"
  by (simp add: slice_def trunc_def)

lemma snd_filterMessages:
  "snd (filterMessages relative compare self C F) =
     slice (sortBy compare (filter (isInFilesChanged relative C) F)) (Finite 0) (priv_messageLimit self)"
  by (simp add: filterMessages_def Let_def)

text \<open>
  Claim C1. Whatever the comparison function and the limit, every message
  \<^verbatim>\<open>filterMessages\<close> returns is a message of the input whose file has an empty
  \<^verbatim>\<open>path.relative\<close> with some changed file; and the messages returned, together with
  those the final \<^verbatim>\<open>slice(0, messageLimit)\<close> cut off, are exactly the messages of the
  input on changed files, each as often as it occurs there.
\<close>

theorem filterMessages_relevant_up_to_cap:
  "(\<forall>m \<in> set (snd (filterMessages relative compare self C F)).
       m \<in> set F \<and> (\<exists>c \<in> set C. relative c (file_path m) = ''''))
   \<and> (\<exists>dropped.
         mset (snd (filterMessages relative compare self C F) @ dropped)
           = mset (filter (\<lambda>m. \<exists>c \<in> set C. relative c (file_path m) = '''') F)
       \<and> snd (filterMessages relative compare self C F)
           = slice (snd (filterMessages relative compare self C F) @ dropped)
               (Finite 0) (messageLimit self))"
proof -
  let ?rel = "filter (isInFilesChanged relative C) F"
  let ?sorted = "sortBy compare ?rel"
  let ?k = "relativeIndex (length ?sorted) (priv_messageLimit self)"
  have out: "snd (filterMessages relative compare self C F) = take ?k ?sorted"
    by (simp add: snd_filterMessages slice_from_start)
  have sound: "\<forall>m \<in> set (take ?k ?sorted). m \<in> set F \<and> (\<exists>c \<in> set C. relative c (file_path m) = '''')"
  proof
    fix m assume "m \<in> set (take ?k ?sorted)"
    then have "m \<in> set ?sorted" by (rule in_set_takeD)
    then have "m \<in> set ?rel" by (simp only: set_sortBy)
    then show "m \<in> set F \<and> (\<exists>c \<in> set C. relative c (file_path m) = '''')"
      by (simp add: isInFilesChanged_iff)
  qed
  have rel: "?rel = filter (\<lambda>m. \<exists>c \<in> set C. relative c (file_path m) = '''') F"
    by (rule filter_cong) (simp_all add: isInFilesChanged_iff)
  have whole: "take ?k ?sorted @ drop ?k ?sorted = ?sorted" by simp
  have m: "mset (take ?k ?sorted @ drop ?k ?sorted) = mset ?rel"
    by (simp only: whole mset_sortBy)
  have s: "take ?k ?sorted = slice (take ?k ?sorted @ drop ?k ?sorted) (Finite 0) (messageLimit self)"
    by (simp only: whole slice_from_start messageLimit_def)
  have "\<exists>dropped.
         mset (take ?k ?sorted @ dropped)
           = mset (filter (\<lambda>m. \<exists>c \<in> set C. relative c (file_path m) = '''') F)
       \<and> take ?k ?sorted = slice (take ?k ?sorted @ dropped) (Finite 0) (messageLimit self)"
  proof (intro exI conjI)
    show "mset (take ?k ?sorted @ drop ?k ?sorted)
           = mset (filter (\<lambda>m. \<exists>c \<in> set C. relative c (file_path m) = '''') F)"
      using m by (simp only: rel)
    show "take ?k ?sorted = slice (take ?k ?sorted @ drop ?k ?sorted) (Finite 0) (messageLimit self)"
      by (rule s)
  qed
  with sound show ?thesis
    by (simp only: out simp_thms)
qed

lemma sorted_insertBy:
  "sorted_wrt (\<lambda>a b. priority b \<le> priority a) ys \<Longrightarrow>
   sorted_wrt (\<lambda>a b. priority b \<le> priority a) (insertBy Message_compare x ys)"
proof (induction ys)
  case Nil
  then show ?case by simp
next
  case (Cons y ys)
  show ?case
  proof (cases "Message_compare x y \<le> 0")
    case True
    then have "priority y \<le> priority x" by (simp add: Message_compare_def)
    with Cons.prems show ?thesis using True by auto
  next
    case False
    then have "priority x \<le> priority y" by (simp add: Message_compare_def)
    moreover have "set (insertBy Message_compare x ys) = insert x (set ys)"
      using mset_insertBy [of Message_compare x ys] by (metis set_mset_add_mset_insert set_mset_mset)
    ultimately show ?thesis using Cons False by auto
  qed
qed

lemma sorted_sortBy: "sorted_wrt (\<lambda>a b. priority b \<le> priority a) (sortBy Message_compare xs)"
  by (induction xs) (simp_all add: sorted_insertBy)

lemma filter_insertBy:
  "filter (\<lambda>m. priority m = p) (insertBy Message_compare x ys) =
     (if priority x = p then x # filter (\<lambda>m. priority m = p) ys
      else filter (\<lambda>m. priority m = p) ys)"
  by (induction ys) (auto simp: Message_compare_def)

lemma filter_sortBy:
  "filter (\<lambda>m. priority m = p) (sortBy Message_compare xs) = filter (\<lambda>m. priority m = p) xs"
  by (induction xs) (simp_all add: filter_insertBy)

lemma sorted_wrt_take: "sorted_wrt R xs \<Longrightarrow> sorted_wrt R (take k xs)"
  by (metis append_take_drop_id sorted_wrt_append)

lemma prefix_filter_take: "prefix (filter P (take k xs)) (filter P xs)"
  by (metis append_take_drop_id filter_append prefixI)

text \<open>
  Claim C2. With the comparison by descending priority, the messages
  \<^verbatim>\<open>filterMessages\<close> returns are in order of non-increasing priority, and those of any
  one priority \<open>p\<close> are the first of the input's messages of that priority on changed
  files, in the order of the input.
\<close>

theorem filterMessages_sorted_stable:
  "sorted_wrt (\<lambda>a b. priority b \<le> priority a)
      (snd (filterMessages relative Message_compare self C F))
   \<and> prefix (filter (\<lambda>m. priority m = p) (snd (filterMessages relative Message_compare self C F)))
             (filter (\<lambda>m. priority m = p) (filter (isInFilesChanged relative C) F))"
proof
  show "sorted_wrt (\<lambda>a b. priority b \<le> priority a)
      (snd (filterMessages relative Message_compare self C F))"
    by (simp only: snd_filterMessages slice_from_start sorted_wrt_take sorted_sortBy)
  have "prefix (filter (\<lambda>m. priority m = p)
            (take (relativeIndex (length (sortBy Message_compare (filter (isInFilesChanged relative C) F)))
                     (priv_messageLimit self))
               (sortBy Message_compare (filter (isInFilesChanged relative C) F))))
          (filter (\<lambda>m. priority m = p) (sortBy Message_compare (filter (isInFilesChanged relative C) F)))"
    by (rule prefix_filter_take)
  then show "prefix (filter (\<lambda>m. priority m = p) (snd (filterMessages relative Message_compare self C F)))
             (filter (\<lambda>m. priority m = p) (filter (isInFilesChanged relative C) F))"
    by (simp only: snd_filterMessages slice_from_start filter_sortBy)
qed

lemma relativeIndex_bound:
  "number_le (Finite 0) n \<Longrightarrow> number_le (of_length (relativeIndex len n)) n"
proof (cases n)
  case (Finite q)
  assume "number_le (Finite 0) n"
  with Finite have q: "0 \<le> q" by simp
  then have t: "trunc q = \<lfloor>q\<rfloor>" "0 \<le> \<lfloor>q\<rfloor>" by (simp_all add: trunc_def)
  have "of_nat (min (nat \<lfloor>q\<rfloor>) len) \<le> (of_nat (nat \<lfloor>q\<rfloor>) :: rat)"
    by simp
  also have "\<dots> = of_int \<lfloor>q\<rfloor>" using t(2) by simp
  also have "\<dots> \<le> q" by simp
  finally show ?thesis using Finite t by (simp add: of_length_def)
qed (simp_all add: of_length_def)

lemma relativeIndex_full:
  "number_le (of_length len) n \<Longrightarrow> relativeIndex len n = len"
proof (cases n)
  case (Finite q)
  assume "number_le (of_length len) n"
  with Finite have q: "of_nat len \<le> q" by (simp add: of_length_def)
  then have "0 \<le> q" by (meson of_nat_0_le_iff order_trans)
  then have t: "trunc q = \<lfloor>q\<rfloor>" by (simp add: trunc_def)
  from q have "int len \<le> \<lfloor>q\<rfloor>" by (simp add: le_floor_iff)
  then have "\<not> \<lfloor>q\<rfloor> < 0" "min (nat \<lfloor>q\<rfloor>) len = len" by linarith+
  then show ?thesis using Finite t by simp
qed (simp_all add: of_length_def)

text \<open>
  Claim C3, amended. When the limit is not negative (zero, a positive number or
  +Infinity), \<^verbatim>\<open>filterMessages\<close> returns at most that many messages; and for every
  limit, when the messages on changed files are at most the limit, nothing is cut: the
  result is all of them, sorted. A negative limit makes \<^verbatim>\<open>slice\<close> count back from the
  end of the array, and the result is then longer than the limit (the counterexample
  below).
\<close>

theorem filterMessages_length_cap:
  "(number_le (Finite 0) (messageLimit self) \<longrightarrow>
      number_le (of_length (length (snd (filterMessages relative compare self C F)))) (messageLimit self))
   \<and> (number_le (of_length (length (filter (isInFilesChanged relative C) F))) (messageLimit self) \<longrightarrow>
        snd (filterMessages relative compare self C F)
          = sortBy compare (filter (isInFilesChanged relative C) F)
      \<and> mset (snd (filterMessages relative compare self C F))
          = mset (filter (isInFilesChanged relative C) F))"
proof (intro conjI impI)
  let ?sorted = "sortBy compare (filter (isInFilesChanged relative C) F)"
  let ?k = "relativeIndex (length ?sorted) (priv_messageLimit self)"
  have out: "snd (filterMessages relative compare self C F) = take ?k ?sorted"
    by (simp add: snd_filterMessages slice_from_start)
  have len: "length (take ?k ?sorted) = ?k"
    using relativeIndex_le [of "length ?sorted" "priv_messageLimit self"] by simp
  {
    assume "number_le (Finite 0) (messageLimit self)"
    then have "number_le (of_length ?k) (priv_messageLimit self)"
      unfolding messageLimit_def by (rule relativeIndex_bound)
    then show "number_le (of_length (length (snd (filterMessages relative compare self C F)))) (messageLimit self)"
      by (simp only: out len messageLimit_def)
  }
  {
    assume "number_le (of_length (length (filter (isInFilesChanged relative C) F))) (messageLimit self)"
    then have "number_le (of_length (length ?sorted)) (priv_messageLimit self)"
      by (simp only: length_sortBy messageLimit_def)
    then have "?k = length ?sorted" by (rule relativeIndex_full)
    then show eq: "snd (filterMessages relative compare self C F) = ?sorted"
      by (simp add: out)
    show "mset (snd (filterMessages relative compare self C F))
          = mset (filter (isInFilesChanged relative C) F)"
      by (simp only: eq mset_sortBy)
  }
qed

lemma example_filter_2:
  "snd (filterMessages exact_relative Message_compare (example_orchestrator (Finite 2) example_service)
          example_files example_messages)
     = [\<lparr>file_path = ''b.ts'', priority = 5, content = ''third''\<rparr>,
        \<lparr>file_path = ''a.ts'', priority = 5, content = ''fourth''\<rparr>]"
  by (simp add: filterMessages_def example_orchestrator_def example_files_def example_messages_def
        exact_relative_def Message_compare_def slice_def trunc_def of_length_def)

lemma example_filter_negative:
  "snd (filterMessages exact_relative Message_compare (example_orchestrator (Finite (- 1)) example_service)
          example_files example_messages)
     = [\<lparr>file_path = ''b.ts'', priority = 5, content = ''third''\<rparr>,
        \<lparr>file_path = ''a.ts'', priority = 5, content = ''fourth''\<rparr>]"
  by (simp add: filterMessages_def example_orchestrator_def example_files_def example_messages_def
        exact_relative_def Message_compare_def slice_def trunc_def of_length_def ceiling_def)

lemma example_filter_10:
  "snd (filterMessages exact_relative Message_compare (example_orchestrator (Finite 10) example_service)
          example_files example_messages)
     = [\<lparr>file_path = ''b.ts'', priority = 5, content = ''third''\<rparr>,
        \<lparr>file_path = ''a.ts'', priority = 5, content = ''fourth''\<rparr>,
        \<lparr>file_path = ''a.ts'', priority = 2, content = ''first''\<rparr>]"
  by (simp add: filterMessages_def example_orchestrator_def example_files_def example_messages_def
        exact_relative_def Message_compare_def slice_def trunc_def of_length_def)

theorem filterMessages_relevant_up_to_cap_witness:
  "\<lparr>file_path = ''b.ts'', priority = 5, content = ''third''\<rparr>
      \<in> set (snd (filterMessages exact_relative Message_compare
                   (example_orchestrator (Finite 2) example_service) example_files example_messages))
   \<and> \<lparr>file_path = ''b.ts'', priority = 5, content = ''third''\<rparr> \<in> set example_messages
   \<and> (\<exists>c \<in> set example_files. exact_relative c ''b.ts'' = '''')"
  using filterMessages_relevant_up_to_cap [of exact_relative Message_compare
      "example_orchestrator (Finite 2) example_service" example_files example_messages]
  by (simp add: example_filter_2)

theorem filterMessages_sorted_stable_witness:
  "sorted_wrt (\<lambda>a b. priority b \<le> priority a)
      (snd (filterMessages exact_relative Message_compare
              (example_orchestrator (Finite 2) example_service) example_files example_messages))
   \<and> filter (\<lambda>m. priority m = 5)
        (snd (filterMessages exact_relative Message_compare
                (example_orchestrator (Finite 2) example_service) example_files example_messages))
      = [\<lparr>file_path = ''b.ts'', priority = 5, content = ''third''\<rparr>,
         \<lparr>file_path = ''a.ts'', priority = 5, content = ''fourth''\<rparr>]"
  using filterMessages_sorted_stable [of exact_relative
      "example_orchestrator (Finite 2) example_service" example_files example_messages 5]
  by (simp add: example_filter_2)

theorem filterMessages_length_cap_witness:
  "number_le (Finite 0) (messageLimit (example_orchestrator (Finite 10) example_service))
   \<and> number_le
        (of_length (length (snd (filterMessages exact_relative Message_compare
           (example_orchestrator (Finite 10) example_service) example_files example_messages))))
        (messageLimit (example_orchestrator (Finite 10) example_service))
   \<and> number_le
        (of_length (length (filter (isInFilesChanged exact_relative example_files) example_messages)))
        (messageLimit (example_orchestrator (Finite 10) example_service))
   \<and> snd (filterMessages exact_relative Message_compare
           (example_orchestrator (Finite 10) example_service) example_files example_messages)
      = sortBy Message_compare (filter (isInFilesChanged exact_relative example_files) example_messages)"
  using filterMessages_length_cap [of "example_orchestrator (Finite 10) example_service"
      exact_relative Message_compare example_files example_messages]
  by (simp add: example_filter_10 messageLimit_def example_orchestrator_def of_length_def
        example_files_def example_messages_def exact_relative_def Message_compare_def)

theorem filterMessages_length_cap_counterexample:
  "\<not> number_le
        (of_length (length (snd (filterMessages exact_relative Message_compare
           (example_orchestrator (Finite (- 1)) example_service) example_files example_messages))))
        (messageLimit (example_orchestrator (Finite (- 1)) example_service))"
  by (simp add: example_filter_negative messageLimit_def example_orchestrator_def of_length_def)

section \<open>filterMessages and the arrays it is given\<close>

lemma map_insertBy:
  "map f (insertBy (\<lambda>x y. cmp (f x) (f y)) x ys) = insertBy cmp (f x) (map f ys)"
  by (induction ys) simp_all

lemma map_sortBy:
  "map f (sortBy (\<lambda>x y. cmp (f x) (f y)) xs) = sortBy cmp (map f xs)"
  by (induction xs) (simp_all add: map_insertBy)

lemma map_slice: "map f (slice xs start stop) = slice (map f xs) start stop"
  by (simp add: slice_def Let_def take_map drop_map)

lemma filterMessages_store_result:
  "filterMessages_store relative compare self filesChanged allMessages s =
     (Suc (length (messageArrays s)),
      s\<lparr>messageArrays := messageArrays s @
          [sortBy (\<lambda>x y. compare (messageObjects s ! x) (messageObjects s ! y))
             (filter (\<lambda>ref. isInFilesChanged relative (stringArrays s ! filesChanged)
                               (messageObjects s ! ref))
                (messageArrays s ! allMessages)),
           slice
             (sortBy (\<lambda>x y. compare (messageObjects s ! x) (messageObjects s ! y))
                (filter (\<lambda>ref. isInFilesChanged relative (stringArrays s ! filesChanged)
                                  (messageObjects s ! ref))
                   (messageArrays s ! allMessages)))
             (Finite 0) (priv_messageLimit self)]\<rparr>)"
  by (simp add: filterMessages_store_def array_filter_def array_sort_def array_slice_def
        allocate_def)

text \<open>
  Claim C9. \<^verbatim>\<open>filterMessages\<close> returns an array that is not one of the store it was
  given; every \<^verbatim>\<open>Message[]\<close> array of that store, \<^verbatim>\<open>allMessages\<close> among them,
  keeps its elements in their order; the \<^verbatim>\<open>string[]\<close> arrays and the messages are
  unchanged (the in-place sort works on the array the filter allocated). The returned
  array holds the messages the function on values computes.
\<close>

theorem filterMessages_store_frame:
  "filterMessages_store relative compare self filesChanged allMessages s = (result, s') \<Longrightarrow>
     length (messageArrays s) \<le> result
     \<and> result < length (messageArrays s')
     \<and> take (length (messageArrays s)) (messageArrays s') = messageArrays s
     \<and> stringArrays s' = stringArrays s
     \<and> messageObjects s' = messageObjects s
     \<and> (allMessages < length (messageArrays s) \<longrightarrow>
          messageArrays s' ! allMessages = messageArrays s ! allMessages
          \<and> messagesAt s' allMessages = messagesAt s allMessages)
     \<and> messagesAt s' result
         = snd (filterMessages relative compare self (stringArrays s ! filesChanged)
                  (messagesAt s allMessages))"
proof -
  assume run: "filterMessages_store relative compare self filesChanged allMessages s = (result, s')"
  let ?deref = "\<lambda>ref. messageObjects s ! ref"
  let ?kept = "filter (\<lambda>ref. isInFilesChanged relative (stringArrays s ! filesChanged) (?deref ref))
                 (messageArrays s ! allMessages)"
  let ?sorted = "sortBy (\<lambda>x y. compare (?deref x) (?deref y)) ?kept"
  let ?cut = "slice ?sorted (Finite 0) (priv_messageLimit self)"
  from run have result: "result = Suc (length (messageArrays s))"
    and s': "s' = s\<lparr>messageArrays := messageArrays s @ [?sorted, ?cut]\<rparr>"
    by (simp_all add: filterMessages_store_result)
  have fresh: "length (messageArrays s) \<le> result" "result < length (messageArrays s')"
    by (simp_all add: result s')
  have arrays: "take (length (messageArrays s)) (messageArrays s') = messageArrays s"
    by (simp add: s')
  have others: "stringArrays s' = stringArrays s" "messageObjects s' = messageObjects s"
    by (simp_all add: s')
  have same: "allMessages < length (messageArrays s) \<longrightarrow>
          messageArrays s' ! allMessages = messageArrays s ! allMessages
          \<and> messagesAt s' allMessages = messagesAt s allMessages"
    by (simp add: s' messagesAt_def nth_append)
  have "messagesAt s' result = map ?deref ?cut"
    by (simp add: s' result messagesAt_def nth_append)
  also have "\<dots> = slice (sortBy compare (map ?deref ?kept)) (Finite 0) (priv_messageLimit self)"
    by (simp only: map_slice map_sortBy)
  also have "map ?deref ?kept
      = filter (isInFilesChanged relative (stringArrays s ! filesChanged)) (messagesAt s allMessages)"
    by (simp add: messagesAt_def filter_map comp_def)
  finally have agree: "messagesAt s' result
         = snd (filterMessages relative compare self (stringArrays s ! filesChanged)
                  (messagesAt s allMessages))"
    by (simp only: snd_filterMessages)
  from fresh arrays others same agree show ?thesis by (intro conjI)
qed

lemma example_store_run:
  "filterMessages_store exact_relative Message_compare
      (example_orchestrator (Finite 2) example_service) 0 0 example_store
   = (2, example_store\<lparr>messageArrays := [[0, 1, 2, 3], [2, 3, 0], [2, 3]]\<rparr>)"
  by (simp add: filterMessages_store_result example_store_def example_orchestrator_def
        example_files_def example_messages_def exact_relative_def Message_compare_def
        slice_def trunc_def)

theorem filterMessages_store_frame_witness:
  "filterMessages_store exact_relative Message_compare
      (example_orchestrator (Finite 2) example_service) 0 0 example_store
     = (2, example_store\<lparr>messageArrays := [[0, 1, 2, 3], [2, 3, 0], [2, 3]]\<rparr>)
   \<and> (0::nat) < length (messageArrays example_store)
   \<and> messageArrays (example_store\<lparr>messageArrays := [[0, 1, 2, 3], [2, 3, 0], [2, 3]]\<rparr>) ! 0
       = messageArrays example_store ! 0
   \<and> messagesAt (example_store\<lparr>messageArrays := [[0, 1, 2, 3], [2, 3, 0], [2, 3]]\<rparr>) 2
       = [\<lparr>file_path = ''b.ts'', priority = 5, content = ''third''\<rparr>,
          \<lparr>file_path = ''a.ts'', priority = 5, content = ''fourth''\<rparr>]"
  using filterMessages_store_frame [OF example_store_run]
  by (simp add: example_store_run)
     (simp add: example_store_def messagesAt_def example_messages_def)

section \<open>The run of postSonarQubeIssuesToPullRequest\<close>

lemma post_nullish:
  "isNullish sqReportPath \<Longrightarrow>
   postSonarQubeIssuesToPullRequest relative compare self sqReportPath =
     (Throws (Error ''Make sure a SonarQube enabled build task ran before this step.''),
      \<lparr>receiver = self, trace = [LogDebug (ReportPathLine sqReportPath)],
       messagesToPost = Undefined\<rparr>)"
  by (cases sqReportPath) (simp_all add: postSonarQubeIssuesToPullRequest_def emit_def)

lemma filterMessages_logs:
  "set (fst (filterMessages relative compare self filesChanged allMessages)) \<subseteq> range LogDebug"
  by (auto simp: filterMessages_def Let_def)

lemma onFilesChanged_result:
  "onFilesChanged relative compare allMessages filesChanged r =
     (Returns (Fulfilled ()),
      r\<lparr>trace := trace r @ LogDebug (ChangedFilesLine (length filesChanged))
                 # fst (filterMessages relative compare (receiver r) filesChanged allMessages),
        messagesToPost :=
          Value (snd (filterMessages relative compare (receiver r) filesChanged allMessages))\<rparr>)"
  by (simp add: onFilesChanged_def emit_def split_def Let_def)

lemma then_onFilesChanged:
  "\<exists>p1 logged m.
     then_promise p0 (onFilesChanged relative compare allMessages) r =
       (p1, r\<lparr>trace := trace r @ logged, messagesToPost := m\<rparr>)
     \<and> set logged \<subseteq> range LogDebug"
proof (cases p0)
  case (Fulfilled filesChanged)
  let ?logged = "LogDebug (ChangedFilesLine (length filesChanged))
                 # fst (filterMessages relative compare (receiver r) filesChanged allMessages)"
  have "then_promise p0 (onFilesChanged relative compare allMessages) r =
       (Fulfilled (), r\<lparr>trace := trace r @ ?logged,
          messagesToPost :=
            Value (snd (filterMessages relative compare (receiver r) filesChanged allMessages))\<rparr>)"
    using Fulfilled by (simp add: then_promise_def onFilesChanged_result)
  moreover have "set ?logged \<subseteq> range LogDebug"
    using filterMessages_logs [of relative compare "receiver r" filesChanged allMessages] by simp
  ultimately show ?thesis by blast
next
  case (Rejected e)
  then have "then_promise p0 (onFilesChanged relative compare allMessages) r =
       (Rejected e, r\<lparr>trace := trace r @ [], messagesToPost := messagesToPost r\<rparr>)"
    by (simp add: then_promise_def)
  moreover have "set ([] :: event list) \<subseteq> range LogDebug" by simp
  ultimately show ?thesis by blast
next
  case Pending
  then have "then_promise p0 (onFilesChanged relative compare allMessages) r =
       (Pending, r\<lparr>trace := trace r @ [], messagesToPost := messagesToPost r\<rparr>)"
    by (simp add: then_promise_def)
  moreover have "set ([] :: event list) \<subseteq> range LogDebug" by simp
  ultimately show ?thesis by blast
qed

lemma then_onFiltered:
  "then_promise p1 onFiltered r =
     (case p1 of
        Fulfilled u \<Rightarrow>
          (case deleteCodeAnalysisComments (PrcaService (receiver r)) of
             Returns q \<Rightarrow> q | Throws e \<Rightarrow> Rejected e,
           r\<lparr>trace := trace r @ [Invoke_deleteCodeAnalysisComments]\<rparr>)
      | Rejected e \<Rightarrow> (Rejected e, r)
      | Pending \<Rightarrow> (Pending, r))"
  by (simp add: then_promise_def onFiltered_def emit_def split: promise.splits completion.splits)

lemma then_onDeleted_not_fulfilled:
  "p2 \<noteq> Fulfilled () \<Longrightarrow> then_promise p2 onDeleted r = (p2, r)"
  by (cases p2) (simp_all add: then_promise_def)

text \<open>
  Claim C4. In a run where the promise of \<^verbatim>\<open>deleteCodeAnalysisComments\<close> is rejected,
  \<^verbatim>\<open>createCodeAnalysisThreads\<close> is not invoked, with any argument; and once the delete
  call has been made, the promise the operation returns is rejected with the same
  reason.
\<close>

theorem delete_failure_aborts:
  assumes "deleteCodeAnalysisComments (PrcaService self) = Returns (Rejected e)"
  shows "Invoke_createCodeAnalysisThreads messages
           \<notin> set (trace (snd (postSonarQubeIssuesToPullRequest relative compare self sqReportPath)))
         \<and> (Invoke_deleteCodeAnalysisComments
               \<in> set (trace (snd (postSonarQubeIssuesToPullRequest relative compare self sqReportPath)))
             \<longrightarrow> fst (postSonarQubeIssuesToPullRequest relative compare self sqReportPath)
                   = Returns (Rejected e))"
proof (cases sqReportPath)
  case Undefined
  then show ?thesis by (simp add: post_nullish)
next
  case Null
  then show ?thesis by (simp add: post_nullish)
next
  case (Value reportPath)
  show ?thesis
  proof (cases "FetchCommentsFromReport (sqReportProcessor self) reportPath")
    case (Throws x)
    with Value show ?thesis
      by (simp add: postSonarQubeIssuesToPullRequest_def emit_def)
  next
    case (Returns allMessages)
    note fetched = this
    show ?thesis
    proof (cases "getModifiedFilesInPr (PrcaService self)")
      case (Throws x)
      with Value fetched show ?thesis
        by (simp add: postSonarQubeIssuesToPullRequest_def emit_def)
    next
      case (Returns p0)
      define r2 where "r2 = \<lparr>receiver = self,
            trace = [LogDebug (ReportPathLine sqReportPath),
                     Invoke_FetchCommentsFromReport reportPath, Invoke_getModifiedFilesInPr],
            messagesToPost = Null\<rparr>"
      obtain p1 logged m where
        one: "then_promise p0 (onFilesChanged relative compare allMessages) r2 =
                (p1, r2\<lparr>trace := trace r2 @ logged, messagesToPost := m\<rparr>)"
        and logs: "set logged \<subseteq> range LogDebug"
        using then_onFilesChanged by blast
      define r3 where "r3 = r2\<lparr>trace := trace r2 @ logged, messagesToPost := m\<rparr>"
      have rec: "receiver r3 = self" by (simp add: r3_def r2_def)
      have post: "postSonarQubeIssuesToPullRequest relative compare self sqReportPath =
          (case then_promise p1 onFiltered r3 of
             (p2, r4) \<Rightarrow> (case then_promise p2 onDeleted r4 of (p3, r5) \<Rightarrow> (Returns p3, r5)))"
        using Value fetched Returns one
        by (simp add: postSonarQubeIssuesToPullRequest_def emit_def r2_def r3_def)
      show ?thesis
      proof (cases p1)
        case (Fulfilled u)
        then have two: "then_promise p1 onFiltered r3 =
            (Rejected e, r3\<lparr>trace := trace r3 @ [Invoke_deleteCodeAnalysisComments]\<rparr>)"
          using assms rec by (simp add: then_onFiltered)
        have "postSonarQubeIssuesToPullRequest relative compare self sqReportPath =
            (Returns (Rejected e), r3\<lparr>trace := trace r3 @ [Invoke_deleteCodeAnalysisComments]\<rparr>)"
          by (simp add: post two then_onDeleted_not_fulfilled)
        then show ?thesis
          using logs by (auto simp: r3_def r2_def)
      next
        case (Rejected x)
        then have two: "then_promise p1 onFiltered r3 = (Rejected x, r3)"
          by (simp add: then_onFiltered)
        have "postSonarQubeIssuesToPullRequest relative compare self sqReportPath =
            (Returns (Rejected x), r3)"
          by (simp add: post two then_onDeleted_not_fulfilled)
        then show ?thesis
          using logs by (auto simp: r3_def r2_def)
      next
        case Pending
        then have two: "then_promise p1 onFiltered r3 = (Pending, r3)"
          by (simp add: then_onFiltered)
        have "postSonarQubeIssuesToPullRequest relative compare self sqReportPath =
            (Returns Pending, r3)"
          by (simp add: post two then_onDeleted_not_fulfilled)
        then show ?thesis
          using logs by (auto simp: r3_def r2_def)
      qed
    qed
  qed
qed

lemma example_run_failing:
  "postSonarQubeIssuesToPullRequest exact_relative Message_compare
      (example_orchestrator (Finite 10) failing_service) (Value ''report.json'')
   = (Returns (Rejected (RemoteError ''delete failed'')),
      \<lparr>receiver = example_orchestrator (Finite 10) failing_service,
       trace = [LogDebug (ReportPathLine (Value ''report.json'')),
                Invoke_FetchCommentsFromReport ''report.json'',
                Invoke_getModifiedFilesInPr,
                LogDebug (ChangedFilesLine 3),
                LogDebug (ForChangedFilesLine 3 1),
                Invoke_deleteCodeAnalysisComments],
       messagesToPost = Value
         [\<lparr>file_path = ''b.ts'', priority = 5, content = ''third''\<rparr>,
          \<lparr>file_path = ''a.ts'', priority = 5, content = ''fourth''\<rparr>,
          \<lparr>file_path = ''a.ts'', priority = 2, content = ''first''\<rparr>]\<rparr>)"
  by (simp add: postSonarQubeIssuesToPullRequest_def then_promise_def onFilesChanged_def
        onFiltered_def onDeleted_def emit_def filterMessages_def example_orchestrator_def
        failing_service_def example_service_def example_processor_def example_files_def
        example_messages_def exact_relative_def Message_compare_def slice_def trunc_def
        of_length_def)

lemma example_run_posting:
  "postSonarQubeIssuesToPullRequest exact_relative Message_compare
      (example_orchestrator (Finite 2) example_service) (Value ''report.json'')
   = (Returns (Fulfilled ()),
      \<lparr>receiver = example_orchestrator (Finite 2) example_service,
       trace = [LogDebug (ReportPathLine (Value ''report.json'')),
                Invoke_FetchCommentsFromReport ''report.json'',
                Invoke_getModifiedFilesInPr,
                LogDebug (ChangedFilesLine 3),
                LogDebug (ForChangedFilesLine 3 1),
                LogDebug (LimitedLine (Finite 2) (Finite 1)),
                Invoke_deleteCodeAnalysisComments,
                LogDebug (ToBePostedLine 2),
                Invoke_createCodeAnalysisThreads
                  [\<lparr>file_path = ''b.ts'', priority = 5, content = ''third''\<rparr>,
                   \<lparr>file_path = ''a.ts'', priority = 5, content = ''fourth''\<rparr>]],
       messagesToPost = Value
         [\<lparr>file_path = ''b.ts'', priority = 5, content = ''third''\<rparr>,
          \<lparr>file_path = ''a.ts'', priority = 5, content = ''fourth''\<rparr>]\<rparr>)"
  by (simp add: postSonarQubeIssuesToPullRequest_def then_promise_def onFilesChanged_def
        onFiltered_def onDeleted_def emit_def filterMessages_def example_orchestrator_def
        example_service_def example_processor_def example_files_def
        example_messages_def exact_relative_def Message_compare_def slice_def trunc_def
        of_length_def)

theorem delete_failure_aborts_witness:
  "deleteCodeAnalysisComments (PrcaService (example_orchestrator (Finite 10) failing_service))
     = Returns (Rejected (RemoteError ''delete failed''))
   \<and> Invoke_createCodeAnalysisThreads
        [\<lparr>file_path = ''b.ts'', priority = 5, content = ''third''\<rparr>,
         \<lparr>file_path = ''a.ts'', priority = 5, content = ''fourth''\<rparr>,
         \<lparr>file_path = ''a.ts'', priority = 2, content = ''first''\<rparr>]
       \<notin> set (trace (snd (postSonarQubeIssuesToPullRequest exact_relative Message_compare
                  (example_orchestrator (Finite 10) failing_service) (Value ''report.json''))))
   \<and> Invoke_deleteCodeAnalysisComments
       \<in> set (trace (snd (postSonarQubeIssuesToPullRequest exact_relative Message_compare
                  (example_orchestrator (Finite 10) failing_service) (Value ''report.json''))))
   \<and> fst (postSonarQubeIssuesToPullRequest exact_relative Message_compare
            (example_orchestrator (Finite 10) failing_service) (Value ''report.json''))
       = Returns (Rejected (RemoteError ''delete failed''))"
  using delete_failure_aborts [of "example_orchestrator (Finite 10) failing_service"
      "RemoteError ''delete failed''"
      "[\<lparr>file_path = ''b.ts'', priority = 5, content = ''third''\<rparr>,
        \<lparr>file_path = ''a.ts'', priority = 5, content = ''fourth''\<rparr>,
        \<lparr>file_path = ''a.ts'', priority = 2, content = ''first''\<rparr>]"
      exact_relative Message_compare "Value ''report.json''"]
  by (simp add: example_run_failing)
     (simp add: example_orchestrator_def failing_service_def example_service_def)

text \<open>
  Claim C5. With a null or undefined report path the operation fails with the error
  that asks for a SonarQube enabled build task to run first; the only event of the run
  is the logged report path: neither the report processor nor any operation of the
  pull request service is invoked.
\<close>

theorem missing_report_path_invokes_nothing:
  "isNullish sqReportPath \<Longrightarrow>
     fst (postSonarQubeIssuesToPullRequest relative compare self sqReportPath)
       = Throws (Error ''Make sure a SonarQube enabled build task ran before this step.'')
     \<and> trace (snd (postSonarQubeIssuesToPullRequest relative compare self sqReportPath))
       = [LogDebug (ReportPathLine sqReportPath)]
     \<and> Invoke_FetchCommentsFromReport reportPath
         \<notin> set (trace (snd (postSonarQubeIssuesToPullRequest relative compare self sqReportPath)))
     \<and> Invoke_getModifiedFilesInPr
         \<notin> set (trace (snd (postSonarQubeIssuesToPullRequest relative compare self sqReportPath)))
     \<and> Invoke_deleteCodeAnalysisComments
         \<notin> set (trace (snd (postSonarQubeIssuesToPullRequest relative compare self sqReportPath)))
     \<and> Invoke_createCodeAnalysisThreads messages
         \<notin> set (trace (snd (postSonarQubeIssuesToPullRequest relative compare self sqReportPath)))"
  by (simp add: post_nullish)

theorem missing_report_path_invokes_nothing_witness:
  "isNullish (Null :: string nullable)
   \<and> fst (postSonarQubeIssuesToPullRequest exact_relative Message_compare
            (example_orchestrator (Finite 10) example_service) Null)
       = Throws (Error ''Make sure a SonarQube enabled build task ran before this step.'')
   \<and> trace (snd (postSonarQubeIssuesToPullRequest exact_relative Message_compare
            (example_orchestrator (Finite 10) example_service) Null))
       = [LogDebug (ReportPathLine Null)]
   \<and> isNullish (Undefined :: string nullable)
   \<and> trace (snd (postSonarQubeIssuesToPullRequest exact_relative Message_compare
            (example_orchestrator (Finite 10) example_service) Undefined))
       = [LogDebug (ReportPathLine Undefined)]"
  using missing_report_path_invokes_nothing [of Null exact_relative Message_compare
          "example_orchestrator (Finite 10) example_service"]
        missing_report_path_invokes_nothing [of Undefined exact_relative Message_compare
          "example_orchestrator (Finite 10) example_service"]
  by simp

text \<open>
  Claim C10. With a null or undefined report path the error is thrown from the call
  itself: the call returns no promise \<open>p\<close>, rejected or otherwise, and a rejection
  handler attached to the result receives nothing.
\<close>

theorem missing_report_path_throws_synchronously:
  "isNullish sqReportPath \<Longrightarrow>
     fst (postSonarQubeIssuesToPullRequest relative compare self sqReportPath)
       = Throws (Error ''Make sure a SonarQube enabled build task ran before this step.'')
     \<and> fst (postSonarQubeIssuesToPullRequest relative compare self sqReportPath) \<noteq> Returns p
     \<and> rejectionHandled (fst (postSonarQubeIssuesToPullRequest relative compare self sqReportPath))
       = None"
  by (simp add: post_nullish)

theorem missing_report_path_throws_synchronously_witness:
  "isNullish (Undefined :: string nullable)
   \<and> fst (postSonarQubeIssuesToPullRequest exact_relative Message_compare
            (example_orchestrator (Finite 10) example_service) Undefined)
       \<noteq> Returns (Rejected (Error ''Make sure a SonarQube enabled build task ran before this step.''))
   \<and> rejectionHandled (fst (postSonarQubeIssuesToPullRequest exact_relative Message_compare
            (example_orchestrator (Finite 10) example_service) Undefined))
       = None
   \<and> rejectionHandled (fst (postSonarQubeIssuesToPullRequest exact_relative Message_compare
            (example_orchestrator (Finite 10) failing_service) (Value ''report.json'')))
       = Some (RemoteError ''delete failed'')"
  using missing_report_path_throws_synchronously [of Undefined exact_relative Message_compare
          "example_orchestrator (Finite 10) example_service"
          "Rejected (Error ''Make sure a SonarQube enabled build task ran before this step.'')"]
  by (simp add: example_run_failing)

lemma post_keeps_receiver:
  "receiver (snd (postSonarQubeIssuesToPullRequest relative compare self sqReportPath)) = self"
  by (simp add: postSonarQubeIssuesToPullRequest_def then_promise_def onFilesChanged_def
        onFiltered_def onDeleted_def emit_def split_def Let_def
      split: nullable.splits completion.splits promise.splits prod.splits)

text \<open>
  Claim C7, amended. When the \<^verbatim>\<open>messageLimit\<close> argument is undefined (absent) or
  null, the limit of the constructed orchestrator is 100; otherwise it is the number
  given, whatever it is: the constructor does not test for NaN or for an infinity (the
  counterexample below). The operation leaves the limit as the constructor set it.
\<close>

theorem constructor_messageLimit:
  "new_PrcaOrchestrator (Value processor) (Value service) limit = Inr self \<Longrightarrow>
     messageLimit self
       = (case limit of Undefined \<Rightarrow> Finite 100 | Null \<Rightarrow> Finite 100 | Value n \<Rightarrow> n)
     \<and> messageLimit
         (receiver (snd (postSonarQubeIssuesToPullRequest relative compare self sqReportPath)))
       = messageLimit self"
  by (auto simp: new_PrcaOrchestrator_def messageLimit_def post_keeps_receiver
      split: nullable.splits)

theorem constructor_messageLimit_witness:
  "new_PrcaOrchestrator (Value example_processor) (Value example_service) (Value (Finite 7))
     = Inr (example_orchestrator (Finite 7) example_service)
   \<and> messageLimit (example_orchestrator (Finite 7) example_service) = Finite 7
   \<and> messageLimit
       (receiver (snd (postSonarQubeIssuesToPullRequest exact_relative Message_compare
          (example_orchestrator (Finite 7) example_service) (Value ''report.json''))))
     = Finite 7"
  using constructor_messageLimit [of example_processor example_service "Value (Finite 7)"
          "example_orchestrator (Finite 7) example_service" exact_relative Message_compare
          "Value ''report.json''"]
  by (simp add: new_PrcaOrchestrator_def example_orchestrator_def messageLimit_def)

theorem constructor_messageLimit_counterexample:
  "new_PrcaOrchestrator (Value example_processor) (Value example_service) (Value NaN)
     = Inr (example_orchestrator NaN example_service)
   \<and> messageLimit (example_orchestrator NaN example_service) \<noteq> Finite 100
   \<and> new_PrcaOrchestrator (Value example_processor) (Value example_service) (Value PosInfinity)
     = Inr (example_orchestrator PosInfinity example_service)
   \<and> messageLimit (example_orchestrator PosInfinity example_service) \<noteq> Finite 100"
  by (simp add: new_PrcaOrchestrator_def example_orchestrator_def messageLimit_def)

text \<open>
  Claim C8. The constructor throws a ReferenceError naming the report processor when
  that argument is null or undefined, and one naming the pull request service when the
  processor is present and the service is null or undefined; no orchestrator exists
  then. With both present it returns an orchestrator.
\<close>

theorem constructor_checks_collaborators:
  "(isNullish processor \<longrightarrow>
      new_PrcaOrchestrator processor service limit = Inl (ReferenceError ''sqReportProcessor''))
   \<and> (\<not> isNullish processor \<and> isNullish service \<longrightarrow>
      new_PrcaOrchestrator processor service limit = Inl (ReferenceError ''PrcaService''))
   \<and> (\<not> isNullish processor \<and> \<not> isNullish service \<longrightarrow>
      (\<exists>self. new_PrcaOrchestrator processor service limit = Inr self))"
  by (cases processor; cases service) (simp_all add: new_PrcaOrchestrator_def)

theorem constructor_checks_collaborators_witness:
  "isNullish (Null :: ISonarQubeReportProcessor nullable)
   \<and> new_PrcaOrchestrator Null (Value example_service) Undefined
       = Inl (ReferenceError ''sqReportProcessor'')
   \<and> \<not> isNullish (Value example_processor) \<and> isNullish (Undefined :: IPrcaService nullable)
   \<and> new_PrcaOrchestrator (Value example_processor) Undefined Undefined
       = Inl (ReferenceError ''PrcaService'')
   \<and> \<not> isNullish (Value example_service)
   \<and> new_PrcaOrchestrator (Value example_processor) (Value example_service) Undefined
       = Inr (example_orchestrator (Finite 100) example_service)"
  using constructor_checks_collaborators [of Null "Value example_service" Undefined]
        constructor_checks_collaborators [of "Value example_processor" Undefined Undefined]
        constructor_checks_collaborators [of "Value example_processor" "Value example_service" Undefined]
  by (simp add: new_PrcaOrchestrator_def example_orchestrator_def)

section \<open>Path equality on a case-insensitive host\<close>






lemma example_paths_apart:
  "path_relative insensitive_host ''src/a.ts'' ''src/b.ts'' = ''../b.ts''"
  "path_relative insensitive_host ''/repo/SRC//./x/../a.ts'' ''src/a.ts'' = ''''"
  "path_relative sensitive_host ''Src/A.ts'' ''src/a.ts'' = ''../../src/a.ts''"
  "path_relative sensitive_host
     [CHR 0xC3, CHR 0x89, CHR ''.'', CHR ''t'', CHR ''s'']
     [CHR 0xC3, CHR 0xA9, CHR ''.'', CHR ''t'', CHR ''s'']
   = [CHR ''.'', CHR ''.'', CHR ''/'', CHR 0xC3, CHR 0xA9, CHR ''.'', CHR ''t'', CHR ''s'']"
  by code_simp+


end
